theory Spec2Isabelle
  imports Complex_Main "HOL-Library.Word"
begin

section \<open>Image Meta Cleaner: the data model of \<open>app.tsx\<close>\<close>

text \<open>
  The development embeds \<open>src/intents/design_editor/app.tsx\<close>. The component keeps seven
  pieces of React state and changes them in five handlers. Everything the handlers obtain
  from outside the file (the exifr parser, the browser's image decoder and canvas encoder,
  the host's upload and insertion calls) is a field of the record \<open>platform\<close>: the handlers
  are functions of the platform and of the state.
\<close>

subsection \<open>JavaScript values\<close>

text \<open>
  A JavaScript \<open>number\<close>. \<open>NaN\<close> and the infinities are left out; like \<open>0\<close>, \<open>NaN\<close> is falsy.
\<close>

type_synonym jsnum = real

text \<open>
  A property of an object literal: the key may be missing from the object, or be an own key
  whose value is \<open>undefined\<close> (\<open>Key None\<close>) or a value (\<open>Key (Some v)\<close>). Reading a
  property cannot tell the first two apart; \<open>Object.keys\<close> can.
\<close>

datatype 'a field = NoKey | Key "'a option"

fun valueOf :: "'a field \<Rightarrow> 'a option" where
  "valueOf NoKey = None"
| "valueOf (Key v) = v"

fun hasKey :: "'a field \<Rightarrow> bool" where
  "hasKey NoKey = False"
| "hasKey (Key v) = True"

text \<open>Truthiness of an optional string, an optional number and an optional object.\<close>

fun truthyStr :: "string option \<Rightarrow> bool" where
  "truthyStr None = False"
| "truthyStr (Some s) = (s \<noteq> [])"

fun truthyNum :: "jsnum option \<Rightarrow> bool" where
  "truthyNum None = False"
| "truthyNum (Some n) = (n \<noteq> 0)"

fun truthyObj :: "'a option \<Rightarrow> bool" where
  "truthyObj None = False"
| "truthyObj (Some x) = True"

text \<open>The operator \<open>a || b\<close> on optional numbers: \<open>a\<close> when \<open>a\<close> is truthy, else \<open>b\<close>.\<close>

definition orElse :: "jsnum option \<Rightarrow> jsnum option \<Rightarrow> jsnum option" where
  "orElse a b = (if truthyNum a then a else b)"

subsection \<open>Files, tag sets and the metadata record\<close>

text \<open>A \<open>File\<close>: the RawImage, bytes with a declared MIME type.\<close>

record File =
  fileName :: string
  fileSize :: nat
  fileType :: string
  fileBytes :: "8 word list"

text \<open>
  \<open>DateTime\<close> and \<open>DateTimeOriginal\<close> are declared \<open>Date | string\<close>; a \<open>Date\<close> is its time
  value in milliseconds.
\<close>

datatype date_or_string = DateObj int | StrVal string

text \<open>A tag value outside the declared fields (\<open>[key: string]: unknown\<close>).\<close>

datatype unknown = NumTag jsnum | StrTag string | BytesTag "8 word list"

text \<open>\<open>ExifData\<close> of \<open>declarations.d.ts\<close>: what \<open>exifr.parse\<close> resolves to.\<close>

record ExifData =
  exif_latitude :: "jsnum option"
  exif_longitude :: "jsnum option"
  DateTime :: "date_or_string option"
  DateTimeOriginal :: "date_or_string option"
  Make :: "string option"
  Model :: "string option"
  Software :: "string option"
  ImageWidth :: "jsnum option"
  ImageHeight :: "jsnum option"
  ExifImageWidth :: "jsnum option"
  ExifImageHeight :: "jsnum option"
  Orientation :: "jsnum option"
  Artist :: "string option"
  Copyright :: "string option"
  otherTags :: "(string \<times> unknown) list"

text \<open>The object \<open>{}\<close> as a tag set: no tag at all.\<close>

definition noTags :: ExifData where
  "noTags = \<lparr>exif_latitude = None, exif_longitude = None, DateTime = None,
     DateTimeOriginal = None, Make = None, Model = None, Software = None,
     ImageWidth = None, ImageHeight = None, ExifImageWidth = None,
     ExifImageHeight = None, Orientation = None, Artist = None, Copyright = None,
     otherTags = []\<rparr>"

text \<open>\<open>interface MetadataInfo\<close> (lines 23-43); the field \<open>make\<close> is \<open>make'\<close> here.\<close>

record MetadataInfo =
  latitude :: "jsnum field"
  longitude :: "jsnum field"
  dateTime :: "string field"
  dateTimeOriginal :: "string field"
  make' :: "string field"
  model :: "string field"
  software :: "string field"
  imageWidth :: "jsnum field"
  imageHeight :: "jsnum field"
  orientation :: "jsnum field"
  artist :: "string field"
  copyright :: "string field"
  raw :: "ExifData field"

text \<open>The object \<open>{}\<close> of lines 121 and 124: no own key.\<close>

definition emptyObject :: MetadataInfo where
  "emptyObject = \<lparr>latitude = NoKey, longitude = NoKey, dateTime = NoKey,
     dateTimeOriginal = NoKey, make' = NoKey, model = NoKey, software = NoKey,
     imageWidth = NoKey, imageHeight = NoKey, orientation = NoKey, artist = NoKey,
     copyright = NoKey, raw = NoKey\<rparr>"

text \<open>\<open>Object.keys(metadata)\<close>: the own keys, in the order of the interface.\<close>

definition objectKeys :: "MetadataInfo \<Rightarrow> string list" where
  "objectKeys m =
     (if hasKey (latitude m) then [''latitude''] else []) @
     (if hasKey (longitude m) then [''longitude''] else []) @
     (if hasKey (dateTime m) then [''dateTime''] else []) @
     (if hasKey (dateTimeOriginal m) then [''dateTimeOriginal''] else []) @
     (if hasKey (make' m) then [''make''] else []) @
     (if hasKey (model m) then [''model''] else []) @
     (if hasKey (software m) then [''software''] else []) @
     (if hasKey (imageWidth m) then [''imageWidth''] else []) @
     (if hasKey (imageHeight m) then [''imageHeight''] else []) @
     (if hasKey (orientation m) then [''orientation''] else []) @
     (if hasKey (artist m) then [''artist''] else []) @
     (if hasKey (copyright m) then [''copyright''] else []) @
     (if hasKey (raw m) then [''raw''] else [])"

text \<open>A field is populated when reading it gives a value, not \<open>undefined\<close>.\<close>

definition populated :: "'a field \<Rightarrow> bool" where
  "populated p = (valueOf p \<noteq> None)"

subsection \<open>The platform\<close>

text \<open>The outcome of awaiting \<open>exifr.parse\<close>: the promise rejects, or resolves to a tag set or to null.\<close>

datatype parse_outcome = Rejected | Resolved "ExifData option"

text \<open>An \<open>Image\<close> element once loaded, a canvas, and a \<open>Blob\<close>.\<close>

record HTMLImage =
  naturalWidth :: nat
  naturalHeight :: nat
  raster :: "8 word list"

record Canvas =
  canvasWidth :: nat
  canvasHeight :: nat
  surface :: "8 word list"

record Blob =
  blobType :: string
  blobBytes :: "8 word list"

record dims =
  width :: nat
  height :: nat

text \<open>The host capabilities that \<open>isSupported\<close> is asked about.\<close>

datatype feature = AddElementAtPoint | AddElementAtCursor | StartDragToPoint | StartDragToCursor

text \<open>The argument of \<open>upload\<close> (lines 247-255 and 288-296).\<close>

record upload_request =
  assetType :: string
  mimeType :: string
  url :: string
  thumbnailUrl :: string
  aiDisclosure :: string
  uploadWidth :: nat
  uploadHeight :: nat

text \<open>
  \<open>ImageDragConfig\<close> (lines 301-313); \<open>resolveImageRef\<close> is the closure \<open>uploadCleanedImage\<close>,
  kept as the upload it makes when called.
\<close>

record drag_config =
  resolveImageRef :: upload_request
  previewUrl :: string
  previewSize :: dims
  fullSize :: dims

type_synonym drag_event = nat

text \<open>The calls a handler makes to the host, in order.\<close>

datatype host_call =
    Upload upload_request
  | AddElement feature string string
  | StartDrag feature drag_event drag_config

text \<open>
  What the handlers call outside the file. \<open>decodeImage\<close> is the load of the image element
  from the object URL of the file (\<open>None\<close>: \<open>onerror\<close> fired); \<open>getContext2d\<close> tells whether
  \<open>canvas.getContext("2d")\<close> is non-null; \<open>toBlob\<close> gives \<open>None\<close> when the callback receives
  null; \<open>readAsDataURL\<close> gives \<open>None\<close> when the reader fails or its result is no string;
  \<open>upload\<close> gives the asset reference or \<open>None\<close> when it throws; \<open>addElement\<close> is false when
  the insertion throws.
\<close>

record platform =
  exifr_parse :: "File \<Rightarrow> parse_outcome"
  dateToString :: "int \<Rightarrow> string"
  createObjectURL :: "File \<Rightarrow> string"
  decodeImage :: "File \<Rightarrow> HTMLImage option"
  getContext2d :: "Canvas \<Rightarrow> bool"
  drawImage :: "HTMLImage \<Rightarrow> Canvas \<Rightarrow> Canvas"
  toBlob :: "Canvas \<Rightarrow> string \<Rightarrow> jsnum \<Rightarrow> Blob option"
  readAsDataURL :: "Blob \<Rightarrow> string option"
  isSupported :: "feature \<Rightarrow> bool"
  upload :: "upload_request \<Rightarrow> string option"
  addElement :: "feature \<Rightarrow> string \<Rightarrow> bool"

section \<open>The Metadata Extractor (lines 86-125)\<close>

text \<open>\<open>x?.toString()\<close> on a \<open>Date | string\<close>.\<close>

fun toStringOpt :: "platform \<Rightarrow> date_or_string option \<Rightarrow> string option" where
  "toStringOpt p None = None"
| "toStringOpt p (Some (StrVal s)) = Some s"
| "toStringOpt p (Some (DateObj t)) = Some (dateToString p t)"

text \<open>The object literal of lines 98-118: thirteen own keys, whatever the tag set holds.\<close>

definition parsedMetadata :: "platform \<Rightarrow> ExifData \<Rightarrow> MetadataInfo" where
  "parsedMetadata p exifData =
     \<lparr>latitude = Key (exif_latitude exifData),
      longitude = Key (exif_longitude exifData),
      dateTime = Key (toStringOpt p (DateTime exifData)),
      dateTimeOriginal = Key (toStringOpt p (DateTimeOriginal exifData)),
      make' = Key (Make exifData),
      model = Key (Model exifData),
      software = Key (Software exifData),
      imageWidth = Key (orElse (ImageWidth exifData) (ExifImageWidth exifData)),
      imageHeight = Key (orElse (ImageHeight exifData) (ExifImageHeight exifData)),
      orientation = Key (Orientation exifData),
      artist = Key (Artist exifData),
      copyright = Key (Copyright exifData),
      raw = Key (Some exifData)\<rparr>"

text \<open>The body of the \<open>try\<close>: the record it hands to \<open>setMetadata\<close>, or an exception.\<close>

datatype exn = Thrown

definition tryParse :: "platform \<Rightarrow> File \<Rightarrow> exn + MetadataInfo" where
  "tryParse p f =
     (case exifr_parse p f of
        Rejected \<Rightarrow> Inl Thrown
      | Resolved None \<Rightarrow> Inr emptyObject
      | Resolved (Some exifData) \<Rightarrow> Inr (parsedMetadata p exifData))"

text \<open>The \<open>try\<close> with its \<open>catch\<close>: the record that \<open>setMetadata\<close> receives.\<close>

definition extractMetadata :: "platform \<Rightarrow> File \<Rightarrow> MetadataInfo" where
  "extractMetadata p f = (case tryParse p f of Inl e \<Rightarrow> emptyObject | Inr m \<Rightarrow> m)"

section \<open>The component state and the classifier\<close>

datatype ProcessingState = Idle | Reading | Cleaning | Done

record app_state =
  selectedFile :: "File option"
  imagePreview :: "string option"
  metadata :: "MetadataInfo option"
  processingState :: ProcessingState
  error :: "string option"
  cleanedImageUrl :: "string option"
  cleanedImageSize :: "dims option"

text \<open>The state of the first render (lines 50-60).\<close>

definition initialState :: app_state where
  "initialState = \<lparr>selectedFile = None, imagePreview = None, metadata = None,
     processingState = Idle, error = None, cleanedImageUrl = None,
     cleanedImageSize = None\<rparr>"

text \<open>\<open>hasPrivacyRisks\<close> (lines 62-69), as a function of the \<open>metadata\<close> state.\<close>

fun hasPrivacyRisks :: "MetadataInfo option \<Rightarrow> bool" where
  "hasPrivacyRisks None = False"
| "hasPrivacyRisks (Some m) =
     (valueOf (latitude m) \<noteq> None \<or>
      valueOf (longitude m) \<noteq> None \<or>
      valueOf (make' m) \<noteq> None \<or>
      valueOf (model m) \<noteq> None \<or>
      valueOf (artist m) \<noteq> None \<or>
      valueOf (dateTimeOriginal m) \<noteq> None)"

section \<open>The handlers\<close>

subsection \<open>\<open>handleFileSelect\<close> (lines 71-128)\<close>

text \<open>
  The handler runs to its \<open>await\<close> (lines 72-84), and resumes after it with the record of the
  extractor (lines 119-127). The setters of the resumed part act on the state as it is when
  the promise settles.
\<close>

definition handleFileSelect_begin :: "platform \<Rightarrow> File list \<Rightarrow> app_state \<Rightarrow> app_state" where
  "handleFileSelect_begin p files st =
     (case files of
        [] \<Rightarrow> st
      | f # rest \<Rightarrow>
          st\<lparr>error := None, cleanedImageUrl := None, metadata := None,
             selectedFile := Some f, processingState := Reading,
             imagePreview := Some (createObjectURL p f)\<rparr>)"

definition handleFileSelect_resume :: "MetadataInfo \<Rightarrow> app_state \<Rightarrow> app_state" where
  "handleFileSelect_resume m st = st\<lparr>metadata := Some m, processingState := Idle\<rparr>"

text \<open>The whole handler, when nothing else happens while it awaits.\<close>

definition handleFileSelect :: "platform \<Rightarrow> File list \<Rightarrow> app_state \<Rightarrow> app_state" where
  "handleFileSelect p files st =
     (case files of
        [] \<Rightarrow> st
      | f # rest \<Rightarrow>
          handleFileSelect_resume (extractMetadata p f) (handleFileSelect_begin p files st))"

subsection \<open>\<open>handleCleanMetadata\<close> (lines 130-231)\<close>

text \<open>The four places where the \<open>try\<close> block throws or rejects.\<close>

datatype clean_error = LoadFailed | NoContext | NoBlob | ReadFailed

text \<open>The type argument of \<open>toBlob\<close> (line 189) and of \<open>upload\<close> (lines 243 and 283).\<close>

definition targetMime :: "File \<Rightarrow> string" where
  "targetMime f = (if fileType f = ''image/png'' then ''image/png'' else ''image/jpeg'')"

text \<open>The fresh canvas of lines 156-158, sized to the image; line 170 draws the image on it.\<close>

definition canvasFor :: "HTMLImage \<Rightarrow> Canvas" where
  "canvasFor img = \<lparr>canvasWidth = naturalWidth img, canvasHeight = naturalHeight img, surface = []\<rparr>"

text \<open>
  The body of the \<open>try\<close> (lines 136-213): the data URL of the re-encoded image with the
  natural size of the decoded one, or the point of failure.
\<close>

definition reencode :: "platform \<Rightarrow> File \<Rightarrow> clean_error + (string \<times> dims)" where
  "reencode p f =
     (case decodeImage p f of
        None \<Rightarrow> Inl LoadFailed
      | Some img \<Rightarrow>
          (let canvas = canvasFor img in
           if \<not> getContext2d p canvas then Inl NoContext
           else
             (case toBlob p (drawImage p img canvas) (targetMime f) (95 / 100) of
                None \<Rightarrow> Inl NoBlob
              | Some cleanedBlob \<Rightarrow>
                  (case readAsDataURL p cleanedBlob of
                     None \<Rightarrow> Inl ReadFailed
                   | Some dataUrl \<Rightarrow>
                       Inr (dataUrl,
                            \<lparr>width = naturalWidth img, height = naturalHeight img\<rparr>)))))"

definition cleanFailedMessage :: string where
  "cleanFailedMessage = ''Failed to clean metadata. Please try again.''"

text \<open>Lines 131-134, up to the first \<open>await\<close>.\<close>

definition handleCleanMetadata_begin :: "app_state \<Rightarrow> app_state" where
  "handleCleanMetadata_begin st =
     (case selectedFile st of
        None \<Rightarrow> st
      | Some f \<Rightarrow> st\<lparr>processingState := Cleaning, error := None\<rparr>)"

text \<open>Lines 216-221 on success and the \<open>catch\<close> of lines 222-230 on failure.\<close>

definition handleCleanMetadata_resume :: "clean_error + (string \<times> dims) \<Rightarrow> app_state \<Rightarrow> app_state" where
  "handleCleanMetadata_resume r st =
     (case r of
        Inr (dataUrl, sz) \<Rightarrow>
          st\<lparr>cleanedImageUrl := Some dataUrl, cleanedImageSize := Some sz,
             processingState := Done\<rparr>
      | Inl e \<Rightarrow> st\<lparr>error := Some cleanFailedMessage, processingState := Idle\<rparr>)"

text \<open>The whole handler, when nothing else happens while it awaits.\<close>

definition handleCleanMetadata :: "platform \<Rightarrow> app_state \<Rightarrow> app_state" where
  "handleCleanMetadata p st =
     (case selectedFile st of
        None \<Rightarrow> st
      | Some f \<Rightarrow> handleCleanMetadata_resume (reencode p f) (handleCleanMetadata_begin st))"

subsection \<open>\<open>handleReset\<close> (lines 327-335)\<close>

definition handleReset :: "app_state \<Rightarrow> app_state" where
  "handleReset st =
     st\<lparr>selectedFile := None, imagePreview := None, metadata := None,
        cleanedImageUrl := None, cleanedImageSize := None, processingState := Idle,
        error := None\<rparr>"

subsection \<open>\<open>handleClick\<close> and \<open>handleDragStart\<close> (lines 233-325)\<close>

text \<open>\<open>[addElementAtPoint, addElementAtCursor].find((fn) => isSupported(fn))\<close>.\<close>

definition addElementMethod :: "platform \<Rightarrow> feature option" where
  "addElementMethod p = find (isSupported p) [AddElementAtPoint, AddElementAtCursor]"

definition uploadRequest :: "File \<Rightarrow> string \<Rightarrow> dims \<Rightarrow> upload_request" where
  "uploadRequest f u sz =
     \<lparr>assetType = ''image'', mimeType = targetMime f, url = u, thumbnailUrl = u,
      aiDisclosure = ''none'', uploadWidth = width sz, uploadHeight = height sz\<rparr>"

definition addFailedMessage :: string where
  "addFailedMessage = ''Failed to add image to design. Please try again.''"

definition altText :: string where
  "altText = ''Image with metadata removed''"

text \<open>The handlers return the new state and the host calls they made.\<close>

definition handleClick :: "platform \<Rightarrow> app_state \<Rightarrow> app_state \<times> host_call list" where
  "handleClick p st =
     (case (cleanedImageUrl st, selectedFile st, addElementMethod p, cleanedImageSize st) of
        (Some u, Some f, Some fn, Some sz) \<Rightarrow>
          (if u = [] then (st, [])
           else
             (let req = uploadRequest f u sz in
              case upload p req of
                None \<Rightarrow> (st\<lparr>error := Some addFailedMessage\<rparr>, [Upload req])
              | Some ref \<Rightarrow>
                  (if addElement p fn ref
                   then (st, [Upload req, AddElement fn ref altText])
                   else (st\<lparr>error := Some addFailedMessage\<rparr>,
                         [Upload req, AddElement fn ref altText]))))
      | other \<Rightarrow> (st, []))"

definition handleDragStart :: "platform \<Rightarrow> drag_event \<Rightarrow> app_state \<Rightarrow> app_state \<times> host_call list" where
  "handleDragStart p event st =
     (case (cleanedImageUrl st, selectedFile st, cleanedImageSize st) of
        (Some u, Some f, Some sz) \<Rightarrow>
          (if u = [] then (st, [])
           else
             (let dragData =
                \<lparr>resolveImageRef = uploadRequest f u sz, previewUrl = u,
                 previewSize = \<lparr>width = 100, height = 100\<rparr>,
                 fullSize = \<lparr>width = width sz, height = height sz\<rparr>\<rparr>
              in if isSupported p StartDragToPoint
                 then (st, [StartDrag StartDragToPoint event dragData])
                 else if isSupported p StartDragToCursor
                 then (st, [StartDrag StartDragToCursor event dragData])
                 else (st, [])))
      | other \<Rightarrow> (st, []))"

section \<open>What is rendered (lines 346-612)\<close>

text \<open>A row of the metadata box, with the value it shows.\<close>

datatype row =
    GpsRow jsnum jsnum
  | DateTakenRow string
  | CameraMakeRow string
  | CameraModelRow string
  | SoftwareRow string
  | ArtistRow string
  | CopyrightRow string
  | DimensionsRow jsnum jsnum
  | ZeroText

text \<open>
  \<open>ZeroText\<close> is no row: it is the number 0 that \<open>{0 && ...}\<close> evaluates to, which is rendered
  as the text "0". The \<open>isRisk\<close> attribute each row is rendered with; the bare text has none.
\<close>

fun isRisk :: "row \<Rightarrow> bool" where
  "isRisk (GpsRow a b) = True"
| "isRisk (DateTakenRow s) = True"
| "isRisk (CameraMakeRow s) = True"
| "isRisk (CameraModelRow s) = True"
| "isRisk (SoftwareRow s) = False"
| "isRisk (ArtistRow s) = True"
| "isRisk (CopyrightRow s) = False"
| "isRisk (DimensionsRow w h) = False"
| "isRisk ZeroText = False"

text \<open>\<open>{metadata.x && <MetadataRow ... />}\<close>: a row when the string is truthy.\<close>

fun strRow :: "(string \<Rightarrow> row) \<Rightarrow> string option \<Rightarrow> row list" where
  "strRow mk None = []"
| "strRow mk (Some s) = (if s = [] then [] else [mk s])"

text \<open>\<open>formatGPS\<close> (lines 337-340) is non-null when both coordinates are defined.\<close>

fun gpsRow :: "jsnum option \<Rightarrow> jsnum option \<Rightarrow> row list" where
  "gpsRow (Some lat) (Some lng) = [GpsRow lat lng]"
| "gpsRow a b = []"

text \<open>
  \<open>{metadata.imageWidth && metadata.imageHeight && <MetadataRow ... />}\<close> (lines 519-527): the
  first falsy operand is the value of the expression. An \<open>undefined\<close> renders nothing, a 0
  renders the text "0".
\<close>

fun dimensionsRow :: "jsnum option \<Rightarrow> jsnum option \<Rightarrow> row list" where
  "dimensionsRow None b = []"
| "dimensionsRow (Some w) None = (if w = 0 then [ZeroText] else [])"
| "dimensionsRow (Some w) (Some h) =
     (if w = 0 then [ZeroText] else if h = 0 then [ZeroText] else [DimensionsRow w h])"

definition metadataRows :: "MetadataInfo \<Rightarrow> row list" where
  "metadataRows m =
     gpsRow (valueOf (latitude m)) (valueOf (longitude m)) @
     strRow DateTakenRow (valueOf (dateTimeOriginal m)) @
     strRow CameraMakeRow (valueOf (make' m)) @
     strRow CameraModelRow (valueOf (model m)) @
     strRow SoftwareRow (valueOf (software m)) @
     strRow ArtistRow (valueOf (artist m)) @
     strRow CopyrightRow (valueOf (copyright m)) @
     dimensionsRow (valueOf (imageWidth m)) (valueOf (imageHeight m))"

text \<open>Lines 433-530: the "No metadata found in this image." alert, or the box of rows.\<close>

datatype metadata_panel = NoMetadataFound | MetadataBox "row list"

definition metadataPanel :: "MetadataInfo \<Rightarrow> metadata_panel" where
  "metadataPanel m =
     (if length (objectKeys m) = 0 \<or>
         (length (objectKeys m) = 1 \<and> truthyObj (valueOf (raw m)))
      then NoMetadataFound
      else MetadataBox (metadataRows m))"

text \<open>
  The metadata section (lines 415-532), rendered when a file is selected, \<open>metadata\<close> is set
  and the state is not \<open>reading\<close>: whether the privacy warning is shown, and the panel.
\<close>

definition metadataSection :: "app_state \<Rightarrow> (bool \<times> metadata_panel) option" where
  "metadataSection st =
     (case (selectedFile st, metadata st) of
        (Some f, Some m) \<Rightarrow>
          (if processingState st \<noteq> Reading
           then Some (hasPrivacyRisks (metadata st), metadataPanel m)
           else None)
      | other \<Rightarrow> None)"

text \<open>The controls that are rendered and enabled (lines 358-363 and 535-607).\<close>

datatype control = FileInputControl | CleanButton | ResetButton | CleanedImageCard

definition controls :: "app_state \<Rightarrow> control list" where
  "controls st =
     (case selectedFile st of
        None \<Rightarrow> [FileInputControl]
      | Some f \<Rightarrow>
          (if processingState st = Cleaning then []
           else if processingState st = Done
           then (if truthyStr (cleanedImageUrl st) then [CleanedImageCard] else []) @ [ResetButton]
           else (if metadata st = None \<or> processingState st = Reading then [] else [CleanButton])
                @ [ResetButton]))"

section \<open>Handlers interleaved at their suspension points\<close>

text \<open>
  A handler that awaits leaves a continuation behind; other events may be handled before it
  resumes. A session is the state together with the continuations in flight. A user event
  is possible when its control is rendered and enabled; a continuation resumes with what the
  platform delivers for the file the handler was started on.
\<close>

datatype task = ReadTask File | CleanTask File

record session =
  app :: app_state
  inflight :: "task list"

datatype event =
    DropFiles "File list"
  | ClickClean
  | ClickReset
  | ReadSettles File
  | CleanSettles File

definition initialSession :: session where
  "initialSession = \<lparr>app = initialState, inflight = []\<rparr>"

fun fire :: "platform \<Rightarrow> event \<Rightarrow> session \<Rightarrow> session option" where
  "fire p (DropFiles files) s =
     (if FileInputControl \<in> set (controls (app s))
      then Some \<lparr>app = handleFileSelect_begin p files (app s),
                 inflight = inflight s @ (case files of [] \<Rightarrow> [] | f # rest \<Rightarrow> [ReadTask f])\<rparr>
      else None)"
| "fire p ClickClean s =
     (if CleanButton \<in> set (controls (app s))
      then Some \<lparr>app = handleCleanMetadata_begin (app s),
                 inflight = inflight s @
                   (case selectedFile (app s) of None \<Rightarrow> [] | Some f \<Rightarrow> [CleanTask f])\<rparr>
      else None)"
| "fire p ClickReset s =
     (if ResetButton \<in> set (controls (app s))
      then Some \<lparr>app = handleReset (app s), inflight = inflight s\<rparr>
      else None)"
| "fire p (ReadSettles f) s =
     (if ReadTask f \<in> set (inflight s)
      then Some \<lparr>app = handleFileSelect_resume (extractMetadata p f) (app s),
                 inflight = remove1 (ReadTask f) (inflight s)\<rparr>
      else None)"
| "fire p (CleanSettles f) s =
     (if CleanTask f \<in> set (inflight s)
      then Some \<lparr>app = handleCleanMetadata_resume (reencode p f) (app s),
                 inflight = remove1 (CleanTask f) (inflight s)\<rparr>
      else None)"

fun run :: "platform \<Rightarrow> event list \<Rightarrow> session \<Rightarrow> session option" where
  "run p [] s = Some s"
| "run p (e # es) s = (case fire p e s of None \<Rightarrow> None | Some s' \<Rightarrow> run p es s')"

section \<open>Concrete files and platforms\<close>

definition photoJpeg :: File where
  "photoJpeg = \<lparr>fileName = ''photo.jpg'', fileSize = 4, fileType = ''image/jpeg'',
     fileBytes = [255, 216, 255, 225]\<rparr>"

definition logoPng :: File where
  "logoPng = \<lparr>fileName = ''logo.png'', fileSize = 4, fileType = ''image/png'',
     fileBytes = [137, 80, 78, 71]\<rparr>"

definition scanWebp :: File where
  "scanWebp = \<lparr>fileName = ''scan.webp'', fileSize = 4, fileType = ''image/webp'',
     fileBytes = [82, 73, 70, 70]\<rparr>"

definition emptyFile :: File where
  "emptyFile = \<lparr>fileName = ''empty.jpg'', fileSize = 0, fileType = ''image/jpeg'',
     fileBytes = []\<rparr>"

text \<open>A tag set with GPS, camera and author tags, and one with a zero \<open>ImageWidth\<close>.\<close>

definition gpsTags :: ExifData where
  "gpsTags = noTags\<lparr>exif_latitude := Some (37422 / 1000),
     exif_longitude := Some (- (122084 / 1000)), Make := Some ''Canon'',
     DateTimeOriginal := Some (StrVal ''2024:01:02 03:04:05''),
     ExifImageWidth := Some 800, ExifImageHeight := Some 600\<rparr>"

definition zeroWidthTags :: ExifData where
  "zeroWidthTags = noTags\<lparr>ImageWidth := Some 0, ExifImageWidth := Some 100\<rparr>"

text \<open>
  A platform for the examples: the parser finds the tags above in \<open>photo.jpg\<close>, an empty tag
  set in \<open>logo.png\<close>, nothing in \<open>scan.webp\<close>, and rejects any other file; every image
  decodes to 800 by 600, \<open>logo.png\<close> to 64 by 48, and the empty file does not decode; the
  encoder labels its output with the requested type.
\<close>

definition demoPlatform :: platform where
  "demoPlatform =
     \<lparr>exifr_parse = (\<lambda>f. if fileName f = ''photo.jpg'' then Resolved (Some gpsTags)
                          else if fileName f = ''logo.png'' then Resolved (Some noTags)
                          else if fileName f = ''scan.webp'' then Resolved None
                          else Rejected),
      dateToString = (\<lambda>t. ''Thu Jan 01 1970''),
      createObjectURL = (\<lambda>f. ''blob:'' @ fileName f),
      decodeImage = (\<lambda>f. if fileBytes f = [] then None
                          else if fileName f = ''logo.png''
                          then Some \<lparr>naturalWidth = 64, naturalHeight = 48, raster = [9]\<rparr>
                          else Some \<lparr>naturalWidth = 800, naturalHeight = 600, raster = [1, 2, 3]\<rparr>),
      getContext2d = (\<lambda>c. True),
      drawImage = (\<lambda>img c. c\<lparr>surface := raster img\<rparr>),
      toBlob = (\<lambda>c t q. Some \<lparr>blobType = t, blobBytes = surface c\<rparr>),
      readAsDataURL = (\<lambda>b. Some (''data:'' @ blobType b)),
      isSupported = (\<lambda>f. f = AddElementAtPoint \<or> f = StartDragToPoint),
      upload = (\<lambda>r. Some ''asset-1''),
      addElement = (\<lambda>fn r. True)\<rparr>"

text \<open>A platform on which nothing succeeds: the parser rejects and no image decodes.\<close>

definition failingPlatform :: platform where
  "failingPlatform = demoPlatform\<lparr>exifr_parse := (\<lambda>f. Rejected), decodeImage := (\<lambda>f. None)\<rparr>"

text \<open>
  A sequence of user events and settled promises, each possible in the state it meets: a
  first file is selected and reset while its metadata is still being read; a second file is
  selected; the first read settles and enables the clean button; the clean is started; the
  second read settles and puts the state back to idle while the clean is in flight; the
  user resets.
\<close>

definition raceEvents :: "event list" where
  "raceEvents =
     [DropFiles [photoJpeg], ClickReset, DropFiles [logoPng], ReadSettles photoJpeg,
      ClickClean, ReadSettles logoPng, ClickReset]"

section \<open>Vocabulary of the specification\<close>

text \<open>A record with all fields absent: reading any field gives \<open>undefined\<close>.\<close>

definition allAbsent :: "MetadataInfo \<Rightarrow> bool" where
  "allAbsent m =
     (\<not> populated (latitude m) \<and> \<not> populated (longitude m) \<and>
      \<not> populated (dateTime m) \<and> \<not> populated (dateTimeOriginal m) \<and>
      \<not> populated (make' m) \<and> \<not> populated (model m) \<and>
      \<not> populated (software m) \<and> \<not> populated (imageWidth m) \<and>
      \<not> populated (imageHeight m) \<and> \<not> populated (orientation m) \<and>
      \<not> populated (artist m) \<and> \<not> populated (copyright m) \<and>
      \<not> populated (raw m))"

text \<open>
  "First present wins", in the words of the specification: the first tag when it is present,
  whatever its value, and otherwise the second.
\<close>

definition firstPresent :: "jsnum option \<Rightarrow> jsnum option \<Rightarrow> jsnum option" where
  "firstPresent a b = (case a of Some x \<Rightarrow> Some x | None \<Rightarrow> b)"

text \<open>None of the twelve named fields is populated (the field \<open>raw\<close> may be).\<close>

definition namedFieldsAbsent :: "MetadataInfo \<Rightarrow> bool" where
  "namedFieldsAbsent m =
     (\<not> populated (latitude m) \<and> \<not> populated (longitude m) \<and>
      \<not> populated (dateTime m) \<and> \<not> populated (dateTimeOriginal m) \<and>
      \<not> populated (make' m) \<and> \<not> populated (model m) \<and>
      \<not> populated (software m) \<and> \<not> populated (imageWidth m) \<and>
      \<not> populated (imageHeight m) \<and> \<not> populated (orientation m) \<and>
      \<not> populated (artist m) \<and> \<not> populated (copyright m))"

text \<open>
  The state in which the sequence \<open>raceEvents\<close> followed by the completion of the clean
  leaves the component: no file selected, and the cleaned image of \<open>logo.png\<close> stored.
\<close>

definition staleState :: app_state where
  "staleState = initialState\<lparr>processingState := Done,
     cleanedImageUrl := Some ''data:image/png'',
     cleanedImageSize := Some \<lparr>width = 64, height = 48\<rparr>\<rparr>"

text \<open>The session while the clean of \<open>logo.png\<close> is in flight, nothing else having happened.\<close>

definition cleaningSession :: session where
  "cleaningSession =
     \<lparr>app = handleCleanMetadata_begin (handleFileSelect demoPlatform [logoPng] initialState),
      inflight = [CleanTask logoPng]\<rparr>"

text \<open>
  Platforms on which the clean fails after the decode: no 2D context, no blob from the
  encoder, no data URL from the reader.
\<close>

definition noContextPlatform :: platform where
  "noContextPlatform = demoPlatform\<lparr>getContext2d := (\<lambda>c. False)\<rparr>"

definition noBlobPlatform :: platform where
  "noBlobPlatform = demoPlatform\<lparr>toBlob := (\<lambda>c t q. None)\<rparr>"

definition noReadPlatform :: platform where
  "noReadPlatform = demoPlatform\<lparr>readAsDataURL := (\<lambda>b. None)\<rparr>"

section \<open>Runs without a read settling during a clean\<close>

fun isCleanTask :: "task \<Rightarrow> bool" where
  "isCleanTask (CleanTask f) = True"
| "isCleanTask (ReadTask f) = False"

definition cleanInFlight :: "session \<Rightarrow> bool" where
  "cleanInFlight s = list_ex isCleanTask (inflight s)"

text \<open>
  The events of a run, fired from a session one after the other, are such that a read never
  settles while a clean is in flight.
\<close>

fun noReadSettlesDuringClean :: "platform \<Rightarrow> event list \<Rightarrow> session \<Rightarrow> bool" where
  "noReadSettlesDuringClean p [] s = True"
| "noReadSettlesDuringClean p (e # es) s =
     ((case e of ReadSettles g \<Rightarrow> \<not> cleanInFlight s | other \<Rightarrow> True) \<and>
      (case fire p e s of None \<Rightarrow> True | Some s' \<Rightarrow> noReadSettlesDuringClean p es s'))"

text \<open>
  At most one clean is in flight, and while it is, the file it was started on is the
  selected one and the state is \<open>cleaning\<close>.
\<close>

definition cleanOwnsSelection :: "session \<Rightarrow> bool" where
  "cleanOwnsSelection s =
     (case filter isCleanTask (inflight s) of
        [] \<Rightarrow> True
      | [CleanTask f] \<Rightarrow> selectedFile (app s) = Some f \<and> processingState (app s) = Cleaning
      | other \<Rightarrow> False)"

section \<open>Properties\<close>

subsection \<open>The extractor\<close>

lemma valueOf_parsedMetadata:
  "valueOf (latitude (parsedMetadata p e)) = exif_latitude e"
  "valueOf (longitude (parsedMetadata p e)) = exif_longitude e"
  "valueOf (dateTime (parsedMetadata p e)) = toStringOpt p (DateTime e)"
  "valueOf (dateTimeOriginal (parsedMetadata p e)) = toStringOpt p (DateTimeOriginal e)"
  "valueOf (make' (parsedMetadata p e)) = Make e"
  "valueOf (model (parsedMetadata p e)) = Model e"
  "valueOf (software (parsedMetadata p e)) = Software e"
  "valueOf (imageWidth (parsedMetadata p e)) = orElse (ImageWidth e) (ExifImageWidth e)"
  "valueOf (imageHeight (parsedMetadata p e)) = orElse (ImageHeight e) (ExifImageHeight e)"
  "valueOf (orientation (parsedMetadata p e)) = Orientation e"
  "valueOf (artist (parsedMetadata p e)) = Artist e"
  "valueOf (copyright (parsedMetadata p e)) = Copyright e"
  "valueOf (raw (parsedMetadata p e)) = Some e"
  by (simp_all add: parsedMetadata_def)

lemma objectKeys_parsedMetadata: "length (objectKeys (parsedMetadata p e)) = 13"
  by (simp add: parsedMetadata_def objectKeys_def)

lemma objectKeys_emptyObject: "objectKeys emptyObject = []"
  by (simp add: emptyObject_def objectKeys_def)

lemma allAbsent_emptyObject: "allAbsent emptyObject"
  by (simp add: allAbsent_def populated_def emptyObject_def)

lemma toStringOpt_eq_None: "toStringOpt p d = None \<longleftrightarrow> d = None"
  by (cases "(p, d)" rule: toStringOpt.cases) simp_all

lemma orElse_cases:
  "orElse a b = (case a of None \<Rightarrow> b | Some x \<Rightarrow> if x = 0 then b else Some x)"
  by (cases a) (simp_all add: orElse_def)

lemma tryParse_cases:
  "tryParse p f = Inl Thrown \<longleftrightarrow> exifr_parse p f = Rejected"
  "tryParse p f = Inr m \<longleftrightarrow>
     (exifr_parse p f = Resolved None \<and> m = emptyObject) \<or>
     (\<exists>e. exifr_parse p f = Resolved (Some e) \<and> m = parsedMetadata p e)"
  by (auto simp: tryParse_def split: parse_outcome.splits option.splits)

lemma extractMetadata_cases:
  "extractMetadata p f =
     (case exifr_parse p f of
        Rejected \<Rightarrow> emptyObject
      | Resolved None \<Rightarrow> emptyObject
      | Resolved (Some e) \<Rightarrow> parsedMetadata p e)"
  by (simp add: extractMetadata_def tryParse_def split: parse_outcome.splits option.splits)

lemma handleFileSelect_fields:
  "selectedFile (handleFileSelect p (f # rest) st) = Some f"
  "imagePreview (handleFileSelect p (f # rest) st) = Some (createObjectURL p f)"
  "metadata (handleFileSelect p (f # rest) st) = Some (extractMetadata p f)"
  "processingState (handleFileSelect p (f # rest) st) = Idle"
  "error (handleFileSelect p (f # rest) st) = None"
  "cleanedImageUrl (handleFileSelect p (f # rest) st) = None"
  "cleanedImageSize (handleFileSelect p (f # rest) st) = cleanedImageSize st"
  by (simp_all add: handleFileSelect_def handleFileSelect_begin_def handleFileSelect_resume_def)

text \<open>
  C2. For every file, whatever its bytes, and every behaviour of the parser, the extractor
  yields a record and the selection handler stores it, ends in the idle state and sets no
  error; when the body of the \<open>try\<close> throws, the record is the empty one, with all fields
  absent.
\<close>

theorem extraction_total:
  "metadata (handleFileSelect p (f # rest) st) = Some (extractMetadata p f) \<and>
   processingState (handleFileSelect p (f # rest) st) = Idle \<and>
   error (handleFileSelect p (f # rest) st) = None \<and>
   (tryParse p f = Inl Thrown \<longleftrightarrow> exifr_parse p f = Rejected) \<and>
   (tryParse p f = Inl Thrown \<longrightarrow>
      extractMetadata p f = emptyObject \<and> allAbsent (extractMetadata p f) \<and>
      objectKeys (extractMetadata p f) = [])"
  by (simp add: handleFileSelect_fields tryParse_cases extractMetadata_cases
      allAbsent_emptyObject objectKeys_emptyObject)

theorem extraction_total_witness:
  "tryParse failingPlatform emptyFile = Inl Thrown \<and>
   fileBytes emptyFile = [] \<and>
   metadata (handleFileSelect failingPlatform [emptyFile] initialState) = Some emptyObject \<and>
   processingState (handleFileSelect failingPlatform [emptyFile] initialState) = Idle \<and>
   error (handleFileSelect failingPlatform [emptyFile] initialState) = None \<and>
   allAbsent (extractMetadata failingPlatform emptyFile)"
proof -
  have h: "tryParse failingPlatform emptyFile = Inl Thrown"
    by (simp add: tryParse_def failingPlatform_def)
  have b: "fileBytes emptyFile = []"
    by (simp add: emptyFile_def)
  show ?thesis
    using h b extraction_total [of failingPlatform emptyFile "[]" initialState]
    by auto
qed

subsection \<open>The classifier\<close>

text \<open>
  C3. The risk flag of a record is true exactly when the latitude, the longitude, the
  original date, the camera make, the camera model or the artist is populated; on a record
  where none of these is populated it is false whatever the software, copyright and image
  size fields hold.
\<close>

theorem classification_correct:
  "(hasPrivacyRisks (Some m) \<longleftrightarrow>
      populated (latitude m) \<or> populated (longitude m) \<or> populated (dateTimeOriginal m) \<or>
      populated (make' m) \<or> populated (model m) \<or> populated (artist m)) \<and>
   (\<not> populated (latitude m) \<and> \<not> populated (longitude m) \<and>
    \<not> populated (dateTimeOriginal m) \<and> \<not> populated (make' m) \<and>
    \<not> populated (model m) \<and> \<not> populated (artist m) \<longrightarrow>
      \<not> hasPrivacyRisks
          (Some (m\<lparr>software := sw, copyright := cr, imageWidth := w, imageHeight := h\<rparr>)))"
  by (auto simp: populated_def)

theorem classification_correct_witness:
  "\<not> populated (latitude emptyObject) \<and> \<not> populated (longitude emptyObject) \<and>
   \<not> populated (dateTimeOriginal emptyObject) \<and> \<not> populated (make' emptyObject) \<and>
   \<not> populated (model emptyObject) \<and> \<not> populated (artist emptyObject) \<and>
   \<not> hasPrivacyRisks
       (Some (emptyObject\<lparr>software := Key (Some ''GIMP''), copyright := Key (Some ''ACME''),
          imageWidth := Key (Some 800), imageHeight := Key (Some 600)\<rparr>)) \<and>
   hasPrivacyRisks (Some (parsedMetadata demoPlatform gpsTags))"
proof -
  have h: "\<not> populated (latitude emptyObject) \<and> \<not> populated (longitude emptyObject) \<and>
      \<not> populated (dateTimeOriginal emptyObject) \<and> \<not> populated (make' emptyObject) \<and>
      \<not> populated (model emptyObject) \<and> \<not> populated (artist emptyObject)"
    by (simp add: populated_def emptyObject_def)
  have g: "populated (latitude (parsedMetadata demoPlatform gpsTags))"
    by (simp add: populated_def valueOf_parsedMetadata gpsTags_def noTags_def)
  show ?thesis
    using h g
      classification_correct [where m = emptyObject and sw = "Key (Some ''GIMP'')"
        and cr = "Key (Some ''ACME'')" and w = "Key (Some 800)" and h = "Key (Some 600)"]
      classification_correct [of "parsedMetadata demoPlatform gpsTags"]
    by blast
qed

text \<open>
  The flag and the rows agree in one direction: a row rendered as a risk belongs to a record
  that is flagged. On the record of the extractor the flag is decided by the tags alone.
\<close>

lemma strRow_mem: "r \<in> set (strRow mk v) \<Longrightarrow> v \<noteq> None"
  by (cases v) auto

lemma gpsRow_mem: "r \<in> set (gpsRow a b) \<Longrightarrow> a \<noteq> None \<and> b \<noteq> None"
  by (cases "(a, b)" rule: gpsRow.cases) auto

lemma strRow_isRisk: "r \<in> set (strRow mk v) \<Longrightarrow> \<exists>s. r = mk s"
  by (cases v) (auto split: if_splits)

lemma dimensionsRow_isRisk: "r \<in> set (dimensionsRow a b) \<Longrightarrow> \<not> isRisk r"
  by (cases "(a, b)" rule: dimensionsRow.cases) (auto split: if_splits)

lemma risk_row_flagged:
  assumes "r \<in> set (metadataRows m)" and "isRisk r"
  shows "hasPrivacyRisks (Some m)"
proof -
  from assms(1) consider
      "r \<in> set (gpsRow (valueOf (latitude m)) (valueOf (longitude m)))"
    | "r \<in> set (strRow DateTakenRow (valueOf (dateTimeOriginal m)))"
    | "r \<in> set (strRow CameraMakeRow (valueOf (make' m)))"
    | "r \<in> set (strRow CameraModelRow (valueOf (model m)))"
    | "r \<in> set (strRow SoftwareRow (valueOf (software m)))"
    | "r \<in> set (strRow ArtistRow (valueOf (artist m)))"
    | "r \<in> set (strRow CopyrightRow (valueOf (copyright m)))"
    | "r \<in> set (dimensionsRow (valueOf (imageWidth m)) (valueOf (imageHeight m)))"
    by (auto simp: metadataRows_def)
  then show ?thesis
  proof cases
    case 1
    then show ?thesis using gpsRow_mem by fastforce
  next
    case 2
    then show ?thesis using strRow_mem by fastforce
  next
    case 3
    then show ?thesis using strRow_mem by fastforce
  next
    case 4
    then show ?thesis using strRow_mem by fastforce
  next
    case 5
    with assms(2) show ?thesis by (auto dest: strRow_isRisk)
  next
    case 6
    then show ?thesis using strRow_mem by fastforce
  next
    case 7
    with assms(2) show ?thesis by (auto dest: strRow_isRisk)
  next
    case 8
    with assms(2) show ?thesis by (auto dest: dimensionsRow_isRisk)
  qed
qed

lemma hasPrivacyRisks_extractMetadata:
  "hasPrivacyRisks (Some (extractMetadata p f)) \<longleftrightarrow>
     (\<exists>e. exifr_parse p f = Resolved (Some e) \<and>
        (exif_latitude e \<noteq> None \<or> exif_longitude e \<noteq> None \<or> Make e \<noteq> None \<or>
         Model e \<noteq> None \<or> Artist e \<noteq> None \<or> DateTimeOriginal e \<noteq> None))"
  by (auto simp: extractMetadata_cases valueOf_parsedMetadata toStringOpt_eq_None emptyObject_def
      split: parse_outcome.splits option.splits)

subsection \<open>The projection of the tag set\<close>

text \<open>
  C5, as the code has it. The projection follows the name table: \<open>Make\<close>, \<open>Model\<close>,
  \<open>Software\<close>, \<open>Orientation\<close>, \<open>Artist\<close> and \<open>Copyright\<close> are copied, \<open>DateTime\<close> and
  \<open>DateTimeOriginal\<close> are copied through \<open>toString\<close>, and \<open>imageWidth\<close> (\<open>imageHeight\<close>) is
  \<open>ImageWidth\<close> (\<open>ImageHeight\<close>) when that tag is present and not zero, and otherwise
  \<open>ExifImageWidth\<close> (\<open>ExifImageHeight\<close>).
\<close>

theorem projection_table:
  "valueOf (dateTime (parsedMetadata p e)) = toStringOpt p (DateTime e) \<and>
   valueOf (dateTimeOriginal (parsedMetadata p e)) = toStringOpt p (DateTimeOriginal e) \<and>
   valueOf (make' (parsedMetadata p e)) = Make e \<and>
   valueOf (model (parsedMetadata p e)) = Model e \<and>
   valueOf (software (parsedMetadata p e)) = Software e \<and>
   valueOf (orientation (parsedMetadata p e)) = Orientation e \<and>
   valueOf (artist (parsedMetadata p e)) = Artist e \<and>
   valueOf (copyright (parsedMetadata p e)) = Copyright e \<and>
   valueOf (imageWidth (parsedMetadata p e)) =
     (case ImageWidth e of
        None \<Rightarrow> ExifImageWidth e
      | Some w \<Rightarrow> if w = 0 then ExifImageWidth e else Some w) \<and>
   valueOf (imageHeight (parsedMetadata p e)) =
     (case ImageHeight e of
        None \<Rightarrow> ExifImageHeight e
      | Some h \<Rightarrow> if h = 0 then ExifImageHeight e else Some h)"
  by (simp add: valueOf_parsedMetadata orElse_cases)

theorem projection_table_witness:
  "valueOf (make' (parsedMetadata demoPlatform gpsTags)) = Some ''Canon'' \<and>
   valueOf (dateTimeOriginal (parsedMetadata demoPlatform gpsTags)) = Some ''2024:01:02 03:04:05'' \<and>
   valueOf (imageWidth (parsedMetadata demoPlatform gpsTags)) = Some 800 \<and>
   valueOf (imageWidth (parsedMetadata demoPlatform zeroWidthTags)) = Some 100"
  using projection_table [of demoPlatform gpsTags] projection_table [of demoPlatform zeroWidthTags]
  by (simp add: gpsTags_def zeroWidthTags_def noTags_def)

text \<open>
  C5 as stated fails where the first tag is present with the value zero: with
  \<open>ImageWidth = 0\<close> and \<open>ExifImageWidth = 100\<close> the record holds 100, not the first present
  tag.
\<close>

theorem first_present_counterexample:
  "ImageWidth zeroWidthTags = Some 0 \<and>
   firstPresent (ImageWidth zeroWidthTags) (ExifImageWidth zeroWidthTags) = Some 0 \<and>
   valueOf (imageWidth (parsedMetadata demoPlatform zeroWidthTags)) = Some 100 \<and>
   valueOf (imageWidth (parsedMetadata demoPlatform zeroWidthTags)) \<noteq>
     firstPresent (ImageWidth zeroWidthTags) (ExifImageWidth zeroWidthTags)"
  by (simp add: valueOf_parsedMetadata orElse_def firstPresent_def zeroWidthTags_def noTags_def)

subsection \<open>The re-encoder\<close>

lemma reencode_Inr:
  "reencode p f = Inr (u, d) \<longleftrightarrow>
     (\<exists>img cleanedBlob.
        decodeImage p f = Some img \<and> getContext2d p (canvasFor img) \<and>
        toBlob p (drawImage p img (canvasFor img)) (targetMime f) (95 / 100) = Some cleanedBlob \<and>
        readAsDataURL p cleanedBlob = Some u \<and>
        d = \<lparr>width = naturalWidth img, height = naturalHeight img\<rparr>)"
  by (auto simp: reencode_def Let_def split: option.splits)

lemma reencode_Inl:
  "reencode p f = Inl e \<longleftrightarrow>
     (decodeImage p f = None \<and> e = LoadFailed) \<or>
     (\<exists>img. decodeImage p f = Some img \<and> \<not> getContext2d p (canvasFor img) \<and> e = NoContext) \<or>
     (\<exists>img. decodeImage p f = Some img \<and> getContext2d p (canvasFor img) \<and>
        toBlob p (drawImage p img (canvasFor img)) (targetMime f) (95 / 100) = None \<and> e = NoBlob) \<or>
     (\<exists>img cleanedBlob. decodeImage p f = Some img \<and> getContext2d p (canvasFor img) \<and>
        toBlob p (drawImage p img (canvasFor img)) (targetMime f) (95 / 100) = Some cleanedBlob \<and>
        readAsDataURL p cleanedBlob = None \<and> e = ReadFailed)"
  by (auto simp: reencode_def Let_def split: option.splits)

lemma handleCleanMetadata_success:
  assumes "selectedFile st = Some f" and "reencode p f = Inr (u, d)"
  shows "handleCleanMetadata p st =
    st\<lparr>processingState := Done, error := None, cleanedImageUrl := Some u,
       cleanedImageSize := Some d\<rparr>"
  using assms
  by (simp add: handleCleanMetadata_def handleCleanMetadata_begin_def handleCleanMetadata_resume_def)

lemma handleCleanMetadata_failure:
  assumes "selectedFile st = Some f" and "reencode p f = Inl e"
  shows "handleCleanMetadata p st =
    st\<lparr>processingState := Idle, error := Some cleanFailedMessage\<rparr>"
  using assms
  by (simp add: handleCleanMetadata_def handleCleanMetadata_begin_def handleCleanMetadata_resume_def)

lemma handleCleanMetadata_Done:
  assumes "selectedFile st = Some f"
  shows "processingState (handleCleanMetadata p st) = Done \<longleftrightarrow> (\<exists>u d. reencode p f = Inr (u, d))"
proof (cases "reencode p f")
  case (Inl e)
  then show ?thesis using assms by (simp add: handleCleanMetadata_failure)
next
  case (Inr r)
  then show ?thesis using assms by (cases r) (simp add: handleCleanMetadata_success)
qed

text \<open>
  C4. When a clean of the selected file succeeds, the image was encoded from a canvas of the
  natural size of the decoded image, with the type \<open>image/png\<close> when the declared type of the
  file is \<open>image/png\<close> and \<open>image/jpeg\<close> otherwise, at quality 0.95; the stored data URL is
  that of this encoding and the stored size is the natural size of the decoded image.
\<close>

theorem clean_format_and_dimensions:
  assumes "selectedFile st = Some f"
    and "processingState (handleCleanMetadata p st) = Done"
  shows "\<exists>img cleanedBlob u.
    decodeImage p f = Some img \<and>
    canvasWidth (canvasFor img) = naturalWidth img \<and>
    canvasHeight (canvasFor img) = naturalHeight img \<and>
    toBlob p (drawImage p img (canvasFor img))
      (if fileType f = ''image/png'' then ''image/png'' else ''image/jpeg'') (95 / 100)
      = Some cleanedBlob \<and>
    readAsDataURL p cleanedBlob = Some u \<and>
    cleanedImageUrl (handleCleanMetadata p st) = Some u \<and>
    cleanedImageSize (handleCleanMetadata p st) =
      Some \<lparr>width = naturalWidth img, height = naturalHeight img\<rparr>"
proof -
  from assms obtain u d where r: "reencode p f = Inr (u, d)"
    by (auto simp: handleCleanMetadata_Done)
  then obtain img cleanedBlob where
    i: "decodeImage p f = Some img" and
    b: "toBlob p (drawImage p img (canvasFor img)) (targetMime f) (95 / 100) = Some cleanedBlob" and
    u: "readAsDataURL p cleanedBlob = Some u" and
    d: "d = \<lparr>width = naturalWidth img, height = naturalHeight img\<rparr>"
    by (auto simp: reencode_Inr)
  have "cleanedImageUrl (handleCleanMetadata p st) = Some u"
    and "cleanedImageSize (handleCleanMetadata p st) = Some d"
    using assms(1) r by (simp_all add: handleCleanMetadata_success)
  with i b u d show ?thesis
    by (auto simp: targetMime_def canvasFor_def)
qed

theorem clean_format_and_dimensions_witness:
  "selectedFile (handleFileSelect demoPlatform [scanWebp] initialState) = Some scanWebp \<and>
   processingState
     (handleCleanMetadata demoPlatform (handleFileSelect demoPlatform [scanWebp] initialState)) = Done \<and>
   fileType scanWebp = ''image/webp'' \<and>
   cleanedImageUrl
     (handleCleanMetadata demoPlatform (handleFileSelect demoPlatform [scanWebp] initialState))
     = Some ''data:image/jpeg'' \<and>
   cleanedImageSize
     (handleCleanMetadata demoPlatform (handleFileSelect demoPlatform [scanWebp] initialState))
     = Some \<lparr>width = 800, height = 600\<rparr>"
proof -
  let ?st = "handleFileSelect demoPlatform [scanWebp] initialState"
  have h1: "selectedFile ?st = Some scanWebp"
    by (simp add: handleFileSelect_fields)
  have h2: "processingState (handleCleanMetadata demoPlatform ?st) = Done"
    by code_simp
  have t: "fileType scanWebp = ''image/webp''"
    by (simp add: scanWebp_def)
  from clean_format_and_dimensions [OF h1 h2] obtain img cleanedBlob u where
    i: "decodeImage demoPlatform scanWebp = Some img" and
    b: "toBlob demoPlatform (drawImage demoPlatform img (canvasFor img))
          (if fileType scanWebp = ''image/png'' then ''image/png'' else ''image/jpeg'') (95 / 100)
          = Some cleanedBlob" and
    r: "readAsDataURL demoPlatform cleanedBlob = Some u" and
    cu: "cleanedImageUrl (handleCleanMetadata demoPlatform ?st) = Some u" and
    cs: "cleanedImageSize (handleCleanMetadata demoPlatform ?st) =
           Some \<lparr>width = naturalWidth img, height = naturalHeight img\<rparr>"
    by blast
  from i have img: "naturalWidth img = 800 \<and> naturalHeight img = 600"
    by (auto simp: demoPlatform_def scanWebp_def)
  from b t have "blobType cleanedBlob = ''image/jpeg''"
    by (auto simp: demoPlatform_def)
  with r have "u = ''data:image/jpeg''"
    by (auto simp: demoPlatform_def)
  with h1 h2 t cu cs img show ?thesis
    by simp
qed

subsection \<open>Failure of a clean\<close>

text \<open>
  C7. When the clean of the selected file fails, whether the image does not load, the canvas
  gives no 2D context, the encoder gives no blob or the blob cannot be read as a data URL,
  the error becomes the one generic message, the state becomes idle, the cleaned image URL
  and size are what they were before the attempt, the file stays selected and the reset
  button is rendered.
\<close>

theorem clean_failure_generic:
  assumes "selectedFile st = Some f"
    and "decodeImage p f = None \<or>
      (\<exists>img. decodeImage p f = Some img \<and>
         (\<not> getContext2d p (canvasFor img) \<or>
          toBlob p (drawImage p img (canvasFor img)) (targetMime f) (95 / 100) = None \<or>
          (\<exists>cleanedBlob.
             toBlob p (drawImage p img (canvasFor img)) (targetMime f) (95 / 100) = Some cleanedBlob \<and>
             readAsDataURL p cleanedBlob = None)))"
  shows "error (handleCleanMetadata p st) = Some ''Failed to clean metadata. Please try again.'' \<and>
    processingState (handleCleanMetadata p st) = Idle \<and>
    cleanedImageUrl (handleCleanMetadata p st) = cleanedImageUrl st \<and>
    cleanedImageSize (handleCleanMetadata p st) = cleanedImageSize st \<and>
    selectedFile (handleCleanMetadata p st) = Some f \<and>
    metadata (handleCleanMetadata p st) = metadata st \<and>
    ResetButton \<in> set (controls (handleCleanMetadata p st))"
proof (cases "reencode p f")
  case (Inl e)
  with assms(1) show ?thesis
    by (simp add: handleCleanMetadata_failure cleanFailedMessage_def controls_def)
next
  case (Inr r)
  obtain u d where "r = (u, d)"
    by (cases r)
  with Inr obtain img cleanedBlob where
    "decodeImage p f = Some img" and "getContext2d p (canvasFor img)" and
    "toBlob p (drawImage p img (canvasFor img)) (targetMime f) (95 / 100) = Some cleanedBlob" and
    "readAsDataURL p cleanedBlob = Some u"
    by (auto simp: reencode_Inr)
  with assms(2) have False
    by auto
  then show ?thesis ..
qed

theorem clean_failure_generic_witness:
  "decodeImage demoPlatform emptyFile = None \<and>
   error (handleCleanMetadata demoPlatform (handleFileSelect demoPlatform [emptyFile] initialState))
     = Some ''Failed to clean metadata. Please try again.'' \<and>
   processingState
     (handleCleanMetadata demoPlatform (handleFileSelect demoPlatform [emptyFile] initialState)) = Idle \<and>
   cleanedImageUrl
     (handleCleanMetadata demoPlatform (handleFileSelect demoPlatform [emptyFile] initialState)) = None \<and>
   \<not> getContext2d noContextPlatform
       (canvasFor \<lparr>naturalWidth = 800, naturalHeight = 600, raster = [1, 2, 3]\<rparr>) \<and>
   error (handleCleanMetadata noContextPlatform (handleFileSelect noContextPlatform [photoJpeg] initialState))
     = Some ''Failed to clean metadata. Please try again.'' \<and>
   processingState
     (handleCleanMetadata noContextPlatform (handleFileSelect noContextPlatform [photoJpeg] initialState)) = Idle \<and>
   error (handleCleanMetadata noBlobPlatform (handleFileSelect noBlobPlatform [photoJpeg] initialState))
     = Some ''Failed to clean metadata. Please try again.'' \<and>
   processingState
     (handleCleanMetadata noBlobPlatform (handleFileSelect noBlobPlatform [photoJpeg] initialState)) = Idle \<and>
   error (handleCleanMetadata noReadPlatform (handleFileSelect noReadPlatform [photoJpeg] initialState))
     = Some ''Failed to clean metadata. Please try again.'' \<and>
   processingState
     (handleCleanMetadata noReadPlatform (handleFileSelect noReadPlatform [photoJpeg] initialState)) = Idle \<and>
   cleanedImageUrl
     (handleCleanMetadata noReadPlatform (handleFileSelect noReadPlatform [photoJpeg] initialState)) = None"
proof -
  let ?img = "\<lparr>naturalWidth = 800, naturalHeight = 600, raster = [1, 2, 3]\<rparr>"
  have s0: "selectedFile (handleFileSelect demoPlatform [emptyFile] initialState) = Some emptyFile"
    by (simp add: handleFileSelect_fields)
  have d0: "decodeImage demoPlatform emptyFile = None"
    by (simp add: demoPlatform_def emptyFile_def)
  have u0: "cleanedImageUrl (handleFileSelect demoPlatform [emptyFile] initialState) = None"
    by (simp add: handleFileSelect_fields)
  have s1: "selectedFile (handleFileSelect noContextPlatform [photoJpeg] initialState) = Some photoJpeg"
    by (simp add: handleFileSelect_fields)
  have d1: "decodeImage noContextPlatform photoJpeg = Some ?img"
    by (simp add: noContextPlatform_def demoPlatform_def photoJpeg_def)
  have c1: "\<not> getContext2d noContextPlatform (canvasFor ?img)"
    by (simp add: noContextPlatform_def)
  have s2: "selectedFile (handleFileSelect noBlobPlatform [photoJpeg] initialState) = Some photoJpeg"
    by (simp add: handleFileSelect_fields)
  have d2: "decodeImage noBlobPlatform photoJpeg = Some ?img"
    by (simp add: noBlobPlatform_def demoPlatform_def photoJpeg_def)
  have b2: "toBlob noBlobPlatform (drawImage noBlobPlatform ?img (canvasFor ?img))
      (targetMime photoJpeg) (95 / 100) = None"
    by (simp add: noBlobPlatform_def)
  have s3: "selectedFile (handleFileSelect noReadPlatform [photoJpeg] initialState) = Some photoJpeg"
    by (simp add: handleFileSelect_fields)
  have u3: "cleanedImageUrl (handleFileSelect noReadPlatform [photoJpeg] initialState) = None"
    by (simp add: handleFileSelect_fields)
  have d3: "decodeImage noReadPlatform photoJpeg = Some ?img"
    by (simp add: noReadPlatform_def demoPlatform_def photoJpeg_def)
  have b3: "\<exists>cleanedBlob.
      toBlob noReadPlatform (drawImage noReadPlatform ?img (canvasFor ?img))
        (targetMime photoJpeg) (95 / 100) = Some cleanedBlob \<and>
      readAsDataURL noReadPlatform cleanedBlob = None"
    by (simp add: noReadPlatform_def demoPlatform_def)
  have f0: "decodeImage demoPlatform emptyFile = None \<or>
      (\<exists>img. decodeImage demoPlatform emptyFile = Some img \<and>
         (\<not> getContext2d demoPlatform (canvasFor img) \<or>
          toBlob demoPlatform (drawImage demoPlatform img (canvasFor img)) (targetMime emptyFile)
            (95 / 100) = None \<or>
          (\<exists>cleanedBlob.
             toBlob demoPlatform (drawImage demoPlatform img (canvasFor img)) (targetMime emptyFile)
               (95 / 100) = Some cleanedBlob \<and>
             readAsDataURL demoPlatform cleanedBlob = None)))"
    using d0 by simp
  have f1: "decodeImage noContextPlatform photoJpeg = None \<or>
      (\<exists>img. decodeImage noContextPlatform photoJpeg = Some img \<and>
         (\<not> getContext2d noContextPlatform (canvasFor img) \<or>
          toBlob noContextPlatform (drawImage noContextPlatform img (canvasFor img))
            (targetMime photoJpeg) (95 / 100) = None \<or>
          (\<exists>cleanedBlob.
             toBlob noContextPlatform (drawImage noContextPlatform img (canvasFor img))
               (targetMime photoJpeg) (95 / 100) = Some cleanedBlob \<and>
             readAsDataURL noContextPlatform cleanedBlob = None)))"
    using d1 c1 by blast
  have f2: "decodeImage noBlobPlatform photoJpeg = None \<or>
      (\<exists>img. decodeImage noBlobPlatform photoJpeg = Some img \<and>
         (\<not> getContext2d noBlobPlatform (canvasFor img) \<or>
          toBlob noBlobPlatform (drawImage noBlobPlatform img (canvasFor img))
            (targetMime photoJpeg) (95 / 100) = None \<or>
          (\<exists>cleanedBlob.
             toBlob noBlobPlatform (drawImage noBlobPlatform img (canvasFor img))
               (targetMime photoJpeg) (95 / 100) = Some cleanedBlob \<and>
             readAsDataURL noBlobPlatform cleanedBlob = None)))"
    using d2 b2 by blast
  have f3: "decodeImage noReadPlatform photoJpeg = None \<or>
      (\<exists>img. decodeImage noReadPlatform photoJpeg = Some img \<and>
         (\<not> getContext2d noReadPlatform (canvasFor img) \<or>
          toBlob noReadPlatform (drawImage noReadPlatform img (canvasFor img))
            (targetMime photoJpeg) (95 / 100) = None \<or>
          (\<exists>cleanedBlob.
             toBlob noReadPlatform (drawImage noReadPlatform img (canvasFor img))
               (targetMime photoJpeg) (95 / 100) = Some cleanedBlob \<and>
             readAsDataURL noReadPlatform cleanedBlob = None)))"
    using d3 b3 by blast
  show ?thesis
    using d0 u0 c1 u3
      clean_failure_generic [OF s0 f0] clean_failure_generic [OF s1 f1]
      clean_failure_generic [OF s2 f2] clean_failure_generic [OF s3 f3]
    by simp
qed

subsection \<open>Handlers whose precondition is unmet\<close>

text \<open>
  C10. Clean with no file selected, click and drag with the cleaned image URL, the selected
  file or the cleaned image size absent, and file selection with an empty list of files
  each leave the state as it is and make no host call.
\<close>

theorem handlers_noop:
  "(selectedFile st = None \<longrightarrow>
      handleCleanMetadata p st = st \<and> handleCleanMetadata_begin st = st) \<and>
   (\<not> truthyStr (cleanedImageUrl st) \<or> selectedFile st = None \<or> cleanedImageSize st = None \<longrightarrow>
      handleClick p st = (st, []) \<and> handleDragStart p ev st = (st, [])) \<and>
   (addElementMethod p = None \<longrightarrow> handleClick p st = (st, [])) \<and>
   handleFileSelect p [] st = st \<and> handleFileSelect_begin p [] st = st"
proof -
  have clean: "selectedFile st = None \<longrightarrow>
      handleCleanMetadata p st = st \<and> handleCleanMetadata_begin st = st"
    by (simp add: handleCleanMetadata_def handleCleanMetadata_begin_def)
  have click: "\<not> truthyStr (cleanedImageUrl st) \<or> selectedFile st = None \<or>
      cleanedImageSize st = None \<or> addElementMethod p = None \<longrightarrow> handleClick p st = (st, [])"
    by (cases "cleanedImageUrl st") (auto simp: handleClick_def split: option.splits)
  have drag: "\<not> truthyStr (cleanedImageUrl st) \<or> selectedFile st = None \<or>
      cleanedImageSize st = None \<longrightarrow> handleDragStart p ev st = (st, [])"
    by (cases "cleanedImageUrl st") (auto simp: handleDragStart_def split: option.splits)
  have sel: "handleFileSelect p [] st = st \<and> handleFileSelect_begin p [] st = st"
    by (simp add: handleFileSelect_def handleFileSelect_begin_def)
  from clean click drag sel show ?thesis
    by blast
qed

theorem handlers_noop_witness:
  "selectedFile initialState = None \<and> \<not> truthyStr (cleanedImageUrl initialState) \<and>
   handleCleanMetadata demoPlatform initialState = initialState \<and>
   handleClick demoPlatform initialState = (initialState, []) \<and>
   handleDragStart demoPlatform 0 initialState = (initialState, []) \<and>
   handleFileSelect demoPlatform [] initialState = initialState"
proof -
  have h: "selectedFile initialState = None" "\<not> truthyStr (cleanedImageUrl initialState)"
    by (simp_all add: initialState_def)
  show ?thesis
    using h handlers_noop [of initialState demoPlatform 0]
    by simp
qed

subsection \<open>The "no metadata found" panel\<close>

lemma metadataPanel_emptyObject: "metadataPanel emptyObject = NoMetadataFound"
  by (simp add: metadataPanel_def objectKeys_emptyObject)

lemma metadataPanel_parsedMetadata:
  "metadataPanel (parsedMetadata p e) = MetadataBox (metadataRows (parsedMetadata p e))"
  by (simp add: metadataPanel_def objectKeys_parsedMetadata)

text \<open>
  The panel is the "no metadata" alert exactly when the parser rejected or resolved to
  null: the test for a record whose only key is \<open>raw\<close> never succeeds, since the record built
  from a tag set has thirteen keys.
\<close>

lemma metadataPanel_extractMetadata:
  "metadataPanel (extractMetadata p f) = NoMetadataFound \<longleftrightarrow>
     exifr_parse p f = Rejected \<or> exifr_parse p f = Resolved None"
  by (simp add: extractMetadata_cases metadataPanel_emptyObject metadataPanel_parsedMetadata
      split: parse_outcome.splits option.splits)

lemma namedFieldsAbsent_noTags: "namedFieldsAbsent (parsedMetadata p noTags)"
  by (simp add: namedFieldsAbsent_def populated_def valueOf_parsedMetadata noTags_def orElse_def)

text \<open>
  What a parser resolving to the empty tag set would give: a record with no named field
  populated and \<open>raw\<close> populated with the empty mapping, shown as the box with no row. The
  test of line 434 for a record whose only key is \<open>raw\<close> cannot succeed on it, the literal
  having thirteen keys.
\<close>

lemma empty_tag_set_panel:
  "exifr_parse demoPlatform logoPng = Resolved (Some noTags) \<and>
   namedFieldsAbsent (extractMetadata demoPlatform logoPng) \<and>
   valueOf (raw (extractMetadata demoPlatform logoPng)) = Some noTags \<and>
   length (objectKeys (extractMetadata demoPlatform logoPng)) = 13 \<and>
   metadataSection (handleFileSelect demoPlatform [logoPng] initialState) =
     Some (False, MetadataBox [])"
proof -
  have e: "exifr_parse demoPlatform logoPng = Resolved (Some noTags)"
    by (simp add: demoPlatform_def logoPng_def)
  then have m: "extractMetadata demoPlatform logoPng = parsedMetadata demoPlatform noTags"
    by (simp add: extractMetadata_cases)
  have s: "metadataSection (handleFileSelect demoPlatform [logoPng] initialState) =
     Some (False, MetadataBox [])"
    by code_simp
  from e m s show ?thesis
    by (simp add: namedFieldsAbsent_noTags valueOf_parsedMetadata objectKeys_parsedMetadata)
qed


lemma raw_only_panel:
  "objectKeys r = [''raw''] \<Longrightarrow> valueOf (raw r) = Some e \<Longrightarrow> metadataPanel r = NoMetadataFound"
  by (simp add: metadataPanel_def)




subsection \<open>What a new selection and a reset clear\<close>

lemma handleFileSelect_begin_fields:
  "selectedFile (handleFileSelect_begin p (f # rest) st) = Some f"
  "metadata (handleFileSelect_begin p (f # rest) st) = None"
  "cleanedImageUrl (handleFileSelect_begin p (f # rest) st) = None"
  "error (handleFileSelect_begin p (f # rest) st) = None"
  "processingState (handleFileSelect_begin p (f # rest) st) = Reading"
  "cleanedImageSize (handleFileSelect_begin p (f # rest) st) = cleanedImageSize st"
  by (simp_all add: handleFileSelect_begin_def)

lemma handleReset_initialState: "handleReset st = initialState"
  by (simp add: handleReset_def initialState_def)

text \<open>
  C8 at the input where the code departs from it. The state \<open>staleState\<close> is reached by
  events that are each possible when they happen; it shows the file input. Selecting
  \<open>scan.webp\<close> there clears the metadata and the cleaned image URL before the read starts,
  and leaves the cleaned image size of \<open>logo.png\<close> in place, during the read and after it.
  The reset clears the size.
\<close>

theorem file_select_keeps_cleaned_size:
  "run demoPlatform (raceEvents @ [CleanSettles logoPng]) initialSession =
     Some \<lparr>app = staleState, inflight = []\<rparr> \<and>
   controls staleState = [FileInputControl] \<and>
   cleanedImageSize staleState = Some \<lparr>width = 64, height = 48\<rparr> \<and>
   metadata (handleFileSelect_begin demoPlatform [scanWebp] staleState) = None \<and>
   cleanedImageUrl (handleFileSelect_begin demoPlatform [scanWebp] staleState) = None \<and>
   cleanedImageSize (handleFileSelect_begin demoPlatform [scanWebp] staleState) =
     Some \<lparr>width = 64, height = 48\<rparr> \<and>
   cleanedImageSize (handleFileSelect demoPlatform [scanWebp] staleState) =
     Some \<lparr>width = 64, height = 48\<rparr> \<and>
   cleanedImageSize (handleReset staleState) = None"
proof -
  have r: "run demoPlatform (raceEvents @ [CleanSettles logoPng]) initialSession =
     Some \<lparr>app = staleState, inflight = []\<rparr>"
    by code_simp
  have c: "controls staleState = [FileInputControl]"
    by (simp add: controls_def staleState_def initialState_def)
  have z: "cleanedImageSize staleState = Some \<lparr>width = 64, height = 48\<rparr>"
    by (simp add: staleState_def)
  from r c z show ?thesis
    by (simp add: handleFileSelect_begin_fields handleFileSelect_fields handleReset_def)
qed

subsection \<open>A clean that completes after the file was replaced\<close>

lemma handleCleanMetadata_resume_Inr:
  "handleCleanMetadata_resume (Inr (u, d)) st =
     st\<lparr>cleanedImageUrl := Some u, cleanedImageSize := Some d, processingState := Done\<rparr>"
  by (simp add: handleCleanMetadata_resume_def)

lemma controls_Cleaning:
  "selectedFile st \<noteq> None \<Longrightarrow> processingState st = Cleaning \<Longrightarrow> controls st = []"
  by (auto simp: controls_def)

text \<open>
  C9 as stated fails. After \<open>raceEvents\<close> the clean of \<open>logo.png\<close> is still in flight and the
  user has reset; \<open>scan.webp\<close> is then selected, and the clean settles. Its result, the PNG
  encoding of the 64 by 48 image, becomes the cleaned image of the session, in the state
  \<open>done\<close>, while the selected file is \<open>scan.webp\<close>.
\<close>

theorem stale_clean_counterexample:
  "run demoPlatform (raceEvents @ [DropFiles [scanWebp], CleanSettles logoPng]) initialSession =
     Some \<lparr>app = \<lparr>selectedFile = Some scanWebp, imagePreview = Some ''blob:scan.webp'',
                  metadata = None, processingState = Done, error = None,
                  cleanedImageUrl = Some ''data:image/png'',
                  cleanedImageSize = Some \<lparr>width = 64, height = 48\<rparr>\<rparr>,
           inflight = [ReadTask scanWebp]\<rparr> \<and>
   reencode demoPlatform logoPng = Inr (''data:image/png'', \<lparr>width = 64, height = 48\<rparr>) \<and>
   reencode demoPlatform scanWebp = Inr (''data:image/jpeg'', \<lparr>width = 800, height = 600\<rparr>) \<and>
   scanWebp \<noteq> logoPng"
proof -
  have r: "run demoPlatform (raceEvents @ [DropFiles [scanWebp], CleanSettles logoPng])
      initialSession =
     Some \<lparr>app = \<lparr>selectedFile = Some scanWebp, imagePreview = Some ''blob:scan.webp'',
                  metadata = None, processingState = Done, error = None,
                  cleanedImageUrl = Some ''data:image/png'',
                  cleanedImageSize = Some \<lparr>width = 64, height = 48\<rparr>\<rparr>,
           inflight = [ReadTask scanWebp]\<rparr>"
    by code_simp
  have a: "reencode demoPlatform logoPng = Inr (''data:image/png'', \<lparr>width = 64, height = 48\<rparr>)"
    by (simp add: reencode_def demoPlatform_def logoPng_def canvasFor_def targetMime_def)
  have b: "reencode demoPlatform scanWebp = Inr (''data:image/jpeg'', \<lparr>width = 800, height = 600\<rparr>)"
    by (simp add: reencode_def demoPlatform_def scanWebp_def canvasFor_def targetMime_def)
  have n: "scanWebp \<noteq> logoPng"
    by (simp add: scanWebp_def logoPng_def)
  from r a b n show ?thesis
    by simp
qed

text \<open>
  The sequence \<open>raceEvents\<close> of the counterexample has a read settling during the clean.
\<close>

lemma raceEvents_late_read: "\<not> noReadSettlesDuringClean demoPlatform raceEvents initialSession"
  by code_simp

lemma cleanInFlight_iff: "cleanInFlight s \<longleftrightarrow> filter isCleanTask (inflight s) \<noteq> []"
  by (auto simp: cleanInFlight_def list_ex_iff filter_empty_conv)

lemma cleanOwnsSelection_none:
  "filter isCleanTask (inflight s) = [] \<Longrightarrow> cleanOwnsSelection s"
  by (simp add: cleanOwnsSelection_def)

lemma cleanOwnsSelection_one:
  "filter isCleanTask (inflight s) = [CleanTask f] \<Longrightarrow> selectedFile (app s) = Some f \<Longrightarrow>
   processingState (app s) = Cleaning \<Longrightarrow> cleanOwnsSelection s"
  by (simp add: cleanOwnsSelection_def)

lemma cleanOwnsSelection_mem:
  assumes "cleanOwnsSelection s" and "CleanTask f \<in> set (inflight s)"
  shows "filter isCleanTask (inflight s) = [CleanTask f] \<and>
    selectedFile (app s) = Some f \<and> processingState (app s) = Cleaning"
proof -
  from assms(2) have m: "CleanTask f \<in> set (filter isCleanTask (inflight s))"
    by simp
  show ?thesis
  proof (cases "filter isCleanTask (inflight s)")
    case Nil
    with m show ?thesis by simp
  next
    case (Cons t ts)
    show ?thesis
    proof (cases ts)
      case Nil
      with Cons m have "t = CleanTask f" by simp
      with Cons Nil assms(1) show ?thesis
        by (simp add: cleanOwnsSelection_def)
    next
      case (Cons t' ts')
      with \<open>filter isCleanTask (inflight s) = t # ts\<close> assms(1) show ?thesis
        by (simp add: cleanOwnsSelection_def split: task.splits)
    qed
  qed
qed

lemma cleanOwnsSelection_quiet:
  assumes "cleanOwnsSelection s"
    and "selectedFile (app s) = None \<or> processingState (app s) \<noteq> Cleaning"
  shows "filter isCleanTask (inflight s) = []"
proof (rule ccontr)
  assume "filter isCleanTask (inflight s) \<noteq> []"
  then obtain t where t: "t \<in> set (inflight s)" "isCleanTask t"
    by (auto simp: filter_empty_conv)
  have "\<exists>f. t = CleanTask f"
  proof (cases t)
    case (ReadTask g)
    with t(2) show ?thesis by simp
  next
    case (CleanTask g)
    then show ?thesis by simp
  qed
  then obtain f where "t = CleanTask f" ..
  with t assms(1) have "selectedFile (app s) = Some f \<and> processingState (app s) = Cleaning"
    by (auto dest: cleanOwnsSelection_mem)
  with assms(2) show False
    by auto
qed

lemma controls_FileInput: "FileInputControl \<in> set (controls st) \<Longrightarrow> selectedFile st = None"
  by (auto simp: controls_def split: option.splits if_splits)

lemma controls_CleanButton:
  "CleanButton \<in> set (controls st) \<Longrightarrow> selectedFile st \<noteq> None \<and> processingState st \<noteq> Cleaning"
  by (auto simp: controls_def split: option.splits if_splits)

lemma controls_ResetButton:
  "ResetButton \<in> set (controls st) \<Longrightarrow> selectedFile st \<noteq> None \<and> processingState st \<noteq> Cleaning"
  by (auto simp: controls_def split: option.splits if_splits)

text \<open>Every event but a read settling during a clean keeps the clean with its file.\<close>

lemma fire_cleanOwnsSelection:
  assumes inv: "cleanOwnsSelection s"
    and step: "fire p e s = Some s'"
    and quiet: "\<And>g. e = ReadSettles g \<Longrightarrow> \<not> cleanInFlight s"
  shows "cleanOwnsSelection s'"
proof (cases e)
  case (DropFiles files)
  with step have c: "FileInputControl \<in> set (controls (app s))"
    and s': "inflight s' = inflight s @ (case files of [] \<Rightarrow> [] | f # rest \<Rightarrow> [ReadTask f])"
    by (auto split: if_splits)
  from c have "selectedFile (app s) = None"
    by (rule controls_FileInput)
  with inv have "filter isCleanTask (inflight s) = []"
    by (simp add: cleanOwnsSelection_quiet)
  with s' have "filter isCleanTask (inflight s') = []"
    by (simp split: list.splits)
  then show ?thesis
    by (rule cleanOwnsSelection_none)
next
  case ClickClean
  with step have c: "CleanButton \<in> set (controls (app s))"
    and a': "app s' = handleCleanMetadata_begin (app s)"
    and s': "inflight s' = inflight s @
        (case selectedFile (app s) of None \<Rightarrow> [] | Some f \<Rightarrow> [CleanTask f])"
    by (auto split: if_splits)
  from c obtain f where f: "selectedFile (app s) = Some f" and n: "processingState (app s) \<noteq> Cleaning"
    by (auto dest: controls_CleanButton)
  from inv n have "filter isCleanTask (inflight s) = []"
    by (simp add: cleanOwnsSelection_quiet)
  with s' f have "filter isCleanTask (inflight s') = [CleanTask f]"
    by simp
  moreover from a' f have "selectedFile (app s') = Some f" "processingState (app s') = Cleaning"
    by (simp_all add: handleCleanMetadata_begin_def)
  ultimately show ?thesis
    by (rule cleanOwnsSelection_one)
next
  case ClickReset
  with step have c: "ResetButton \<in> set (controls (app s))"
    and s': "inflight s' = inflight s"
    by (auto split: if_splits)
  from c have "processingState (app s) \<noteq> Cleaning"
    by (auto dest: controls_ResetButton)
  with inv have "filter isCleanTask (inflight s) = []"
    by (simp add: cleanOwnsSelection_quiet)
  with s' show ?thesis
    by (simp add: cleanOwnsSelection_none)
next
  case (ReadSettles g)
  with step have s': "inflight s' = remove1 (ReadTask g) (inflight s)"
    by (auto split: if_splits)
  from ReadSettles quiet have "filter isCleanTask (inflight s) = []"
    by (simp add: cleanInFlight_iff)
  with s' have "filter isCleanTask (inflight s') = []"
    by (simp add: filter_remove1)
  then show ?thesis
    by (rule cleanOwnsSelection_none)
next
  case (CleanSettles f)
  with step have m: "CleanTask f \<in> set (inflight s)"
    and s': "inflight s' = remove1 (CleanTask f) (inflight s)"
    by (auto split: if_splits)
  from inv m have "filter isCleanTask (inflight s) = [CleanTask f]"
    by (simp add: cleanOwnsSelection_mem)
  with s' have "filter isCleanTask (inflight s') = []"
    by (simp add: filter_remove1)
  then show ?thesis
    by (rule cleanOwnsSelection_none)
qed

lemma run_cleanOwnsSelection:
  "cleanOwnsSelection s \<Longrightarrow> noReadSettlesDuringClean p es s \<Longrightarrow> run p es s = Some s' \<Longrightarrow>
   cleanOwnsSelection s'"
proof (induction es arbitrary: s)
  case Nil
  then show ?case by simp
next
  case (Cons e es)
  from Cons.prems(3) obtain s1 where s1: "fire p e s = Some s1" and r: "run p es s1 = Some s'"
    by (auto split: option.splits)
  from Cons.prems(2) s1 have q: "\<And>g. e = ReadSettles g \<Longrightarrow> \<not> cleanInFlight s"
    and n: "noReadSettlesDuringClean p es s1"
    by auto
  from Cons.prems(1) s1 q have "cleanOwnsSelection s1"
    by (rule fire_cleanOwnsSelection)
  from this n r show ?case
    by (rule Cons.IH)
qed

lemma cleanOwnsSelection_initialSession: "cleanOwnsSelection initialSession"
  by (simp add: cleanOwnsSelection_def initialSession_def)

text \<open>
  C9, as the code has it. The handler compares no files. In a run in which no read settles
  while a clean is in flight, a clean that is in flight was started on the file that is
  selected, and the state is \<open>cleaning\<close>: no control is rendered, so that neither a reset,
  nor a file selection, nor a second clean is possible before it settles. When it settles,
  its file is still the selected one, and a result is stored as the cleaned image of that
  file.
\<close>

theorem clean_settles_for_selected_file:
  assumes "run p es initialSession = Some s"
    and "noReadSettlesDuringClean p es initialSession"
    and "CleanTask f \<in> set (inflight s)"
  shows "selectedFile (app s) = Some f \<and>
    processingState (app s) = Cleaning \<and>
    controls (app s) = [] \<and>
    fire p ClickReset s = None \<and>
    fire p (DropFiles files) s = None \<and>
    fire p ClickClean s = None \<and>
    (\<exists>s'. fire p (CleanSettles f) s = Some s' \<and>
       selectedFile (app s') = Some f \<and>
       (\<forall>u d. reencode p f = Inr (u, d) \<longrightarrow>
          cleanedImageUrl (app s') = Some u \<and> cleanedImageSize (app s') = Some d \<and>
          processingState (app s') = Done))"
proof -
  from assms(1,2) have "cleanOwnsSelection s"
    using cleanOwnsSelection_initialSession by (blast intro: run_cleanOwnsSelection)
  with assms(3) have f: "selectedFile (app s) = Some f" and c: "processingState (app s) = Cleaning"
    by (simp_all add: cleanOwnsSelection_mem)
  then have k: "controls (app s) = []"
    by (simp add: controls_Cleaning)
  have "selectedFile (handleCleanMetadata_resume (reencode p f) (app s)) = Some f"
    using f by (simp add: handleCleanMetadata_resume_def split: sum.splits prod.splits)
  with assms(3) f c k show ?thesis
    by (simp add: handleCleanMetadata_resume_Inr)
qed

theorem clean_settles_for_selected_file_witness:
  "run demoPlatform [DropFiles [logoPng], ReadSettles logoPng, ClickClean] initialSession =
     Some cleaningSession \<and>
   noReadSettlesDuringClean demoPlatform [DropFiles [logoPng], ReadSettles logoPng, ClickClean]
     initialSession \<and>
   CleanTask logoPng \<in> set (inflight cleaningSession) \<and>
   selectedFile (app cleaningSession) = Some logoPng \<and>
   controls (app cleaningSession) = [] \<and>
   fire demoPlatform ClickReset cleaningSession = None \<and>
   fire demoPlatform (DropFiles [scanWebp]) cleaningSession = None \<and>
   (\<exists>s'. fire demoPlatform (CleanSettles logoPng) cleaningSession = Some s' \<and>
      selectedFile (app s') = Some logoPng \<and>
      cleanedImageUrl (app s') = Some ''data:image/png'' \<and>
      cleanedImageSize (app s') = Some \<lparr>width = 64, height = 48\<rparr>)"
proof -
  have r: "run demoPlatform [DropFiles [logoPng], ReadSettles logoPng, ClickClean] initialSession =
     Some cleaningSession"
    by code_simp
  have n: "noReadSettlesDuringClean demoPlatform
     [DropFiles [logoPng], ReadSettles logoPng, ClickClean] initialSession"
    by code_simp
  have m: "CleanTask logoPng \<in> set (inflight cleaningSession)"
    by (simp add: cleaningSession_def)
  have e: "reencode demoPlatform logoPng = Inr (''data:image/png'', \<lparr>width = 64, height = 48\<rparr>)"
    by (simp add: reencode_def demoPlatform_def logoPng_def canvasFor_def targetMime_def)
  show ?thesis
    using r n m e clean_settles_for_selected_file [OF r n m, of "[scanWebp]"]
    by auto
qed

end
